theory Spec2Isabelle
  imports Main
begin

section \<open>JavaScript values, errors and effects\<close>

text \<open>
  The values a cell holds are first-order data. JavaScript numbers are modelled by the
  integers they hold; every number below stays inside the range where a double is exact,
  apart from the counter \<open>keyCount\<close>, whose increment is modelled with its saturation.
\<close>

datatype val = VUndefined | VNull | VBool bool | VNum int | VStr string

text \<open>
  \<^verbatim>\<open>type SetStateAction<Value> = Value | ((prev: Value) => Value)\<close>:
  the argument of a write is a plain value or a function of the previous value
  (\<^verbatim>\<open>typeof arg === 'function'\<close> tells them apart).
\<close>

datatype SetStateAction = Plain val | Updater "val \<Rightarrow> val"

text \<open>\<^verbatim>\<open>new Error(message)\<close>, the only exception the sources raise.\<close>

datatype error = Error string

text \<open>
  A call that may read or change the state \<open>'s\<close> of a store, and may throw, returns the
  outcome and the new state.
\<close>

type_synonym ref = nat

type_synonym ('s, 'a) eff = "'s \<Rightarrow> (error + 'a) \<times> 's"

section \<open>The atom descriptor (vanilla/atom.ts)\<close>

text \<open>
  The object \<^verbatim>\<open>config\<close> that \<^verbatim>\<open>atom\<close> returns, in two layers. The first layer is
  what anyone who is handed the object can read off it: \<open>self\<close>, the identity of the
  object, \<open>key\<close>, the string captured by its \<^verbatim>\<open>toString\<close> closure, and the data
  properties \<^verbatim>\<open>init\<close> and \<^verbatim>\<open>debugLabel\<close>. An optional property is an \<open>option\<close>:
  \<open>None\<close> when the object does not have it, so that \<open>init = Some VUndefined\<close> is an
  \<^verbatim>\<open>init\<close> property holding \<^verbatim>\<open>undefined\<close>.
\<close>

record descriptor =
  self :: ref
  key :: string
  init :: "val option"
  debugLabel :: "string option"

text \<open>
  \<^verbatim>\<open>type Getter = <Value>(atom: Atom<Value>) => Value\<close> and
  \<^verbatim>\<open>type Setter = (atom: WritableAtom<...>, ...args: Args) => Result\<close>:
  both are handed the atom object, \<^verbatim>\<open>debugLabel\<close> included.
\<close>

type_synonym 's Getter = "descriptor \<Rightarrow> ('s, val) eff"

type_synonym 's Setter = "descriptor \<Rightarrow> SetStateAction list \<Rightarrow> ('s, val) eff"

text \<open>
  \<^verbatim>\<open>type Read = (get: Getter, options: {signal, setSelf}) => Value\<close> and
  \<^verbatim>\<open>type Write = (get: Getter, set: Setter, ...args: Args) => Result\<close>.
  A JavaScript function also receives \<^verbatim>\<open>this\<close>, the object it is called on: it is the
  first parameter here. The options object is left abstract (\<open>'o\<close>).
\<close>

type_synonym ('s, 'o) Read = "descriptor \<Rightarrow> 's Getter \<Rightarrow> 'o \<Rightarrow> ('s, val) eff"

type_synonym 's Write =
  "descriptor \<Rightarrow> 's Getter \<Rightarrow> 's Setter \<Rightarrow> SetStateAction list \<Rightarrow> ('s, val) eff"

text \<open>
  The second layer adds the function properties \<^verbatim>\<open>read\<close> and \<^verbatim>\<open>write\<close>. A function
  that is handed the object is handed its first layer, as it is at the time of the call
  (\<open>handle\<close>): a function that takes the record holding itself has no type.
\<close>

record ('s, 'o) Atom = descriptor +
  read :: "('s, 'o) Read"
  "write" :: "'s Write option"

definition handle :: "('s, 'o) Atom \<Rightarrow> descriptor" where
  "handle a = \<lparr>self = self a, key = key a, init = init a, debugLabel = debugLabel a\<rparr>"

text \<open>
  The first argument of \<^verbatim>\<open>atom\<close>, \<^verbatim>\<open>read?: Value | Read<...>\<close>: a function, or
  a value that is not one (\<^verbatim>\<open>undefined\<close> when the argument is left out).
\<close>

datatype ('s, 'o) first_arg = Value val | Function "('s, 'o) Read"

text \<open>\<^verbatim>\<open>typeof read === 'function'\<close>\<close>

fun is_function :: "('s, 'o) first_arg \<Rightarrow> bool" where
  "is_function (Function f) = True"
| "is_function (Value v) = False"

text \<open>
  The state of the module and of the heap: \<^verbatim>\<open>let keyCount = 0\<close>, and the number of
  objects allocated so far, which is the identity of the next one.
\<close>

record runtime =
  keyCount :: nat
  nextObj :: nat

definition initial_runtime :: runtime where
  "initial_runtime = \<lparr>keyCount = 0, nextObj = 0\<rparr>"

text \<open>
  \<^verbatim>\<open>++keyCount\<close> on a JavaScript number that holds an integer: exact below \<open>2^53\<close>;
  at \<open>2^53\<close> the sum \<open>2^53 + 1\<close> is not a double and rounds back to \<open>2^53\<close>.
  Counting up from 0 never leaves \<open>{0..2^53}\<close>.
\<close>

definition increment :: "nat \<Rightarrow> nat" where
  "increment n = (if n < 2 ^ 53 then n + 1 else n)"

text \<open>The decimal digits of a number, as the template literal renders an integer.\<close>

definition digit :: "nat \<Rightarrow> char" where
  "digit d = ''0123456789'' ! d"

fun string_of_nat :: "nat \<Rightarrow> string" where
  "string_of_nat n =
     (if n < 10 then [digit n] else string_of_nat (n div 10) @ [digit (n mod 10)])"

declare string_of_nat.simps [simp del]

text \<open>
  \<^verbatim>\<open>function defaultRead(this: Atom<Value>, get: Getter) { return get(this) }\<close>
\<close>

definition defaultRead :: "('s, 'o) Read" where
  "defaultRead this get options = get this"

text \<open>
  \<^verbatim>\<open>function defaultWrite(this, get, set, arg) {
    return set(this, typeof arg === 'function' ? arg(get(this)) : arg) }\<close>
  A parameter that the caller leaves out is \<^verbatim>\<open>undefined\<close>. When \<^verbatim>\<open>get\<close> throws,
  \<^verbatim>\<open>set\<close> is not called.
\<close>

definition defaultWrite :: "'s Write" where
  "defaultWrite this get set_atom args s =
     (let arg = (case args of [] \<Rightarrow> Plain VUndefined | a # _ \<Rightarrow> a) in
      case arg of
        Updater f \<Rightarrow>
          (case get this s of
             (Inl e, s') \<Rightarrow> (Inl e, s')
           | (Inr prev, s') \<Rightarrow> set_atom this [Plain (f prev)] s')
      | Plain v \<Rightarrow> set_atom this [Plain v] s)"

text \<open>
  \<^verbatim>\<open>export function atom(read?, write?)\<close>: a new key from the counter, a new object,
  the branch on \<^verbatim>\<open>typeof read === 'function'\<close>, then \<^verbatim>\<open>if (write) config.write = write\<close>.
  A write argument is a function or absent, so it is truthy exactly when it is given.
\<close>

definition atom ::
  "('s, 'o) first_arg \<Rightarrow> 's Write option \<Rightarrow> runtime \<Rightarrow> ('s, 'o) Atom \<times> runtime" where
  "atom rd wr rt =
     (let n = increment (keyCount rt);
          k = ''atom'' @ string_of_nat n;
          config =
            (case rd of
               Function f \<Rightarrow>
                 \<lparr>self = nextObj rt, key = k, init = None, debugLabel = None,
                  read = f, write = None\<rparr>
             | Value v \<Rightarrow>
                 \<lparr>self = nextObj rt, key = k, init = Some v, debugLabel = None,
                  read = defaultRead, write = Some defaultWrite\<rparr>);
          config' = (case wr of Some w \<Rightarrow> config\<lparr>write := Some w\<rparr> | None \<Rightarrow> config)
      in (config', \<lparr>keyCount = n, nextObj = nextObj rt + 1\<rparr>))"


section \<open>The store (vanilla/store.ts) and the React entry (react.ts)\<close>

text \<open>
  \<^verbatim>\<open>interface Store { get(atom); set(atom, ...args); sub(atom, listener) }\<close>:
  only the interface exists. A listener and the function that \<^verbatim>\<open>sub\<close> returns are
  calls with an effect on the store.
\<close>

record ('s, 'o) Store =
  store_get :: "('s, 'o) Atom \<Rightarrow> ('s, val) eff"
  store_set :: "('s, 'o) Atom \<Rightarrow> SetStateAction list \<Rightarrow> ('s, val) eff"
  store_sub :: "('s, 'o) Atom \<Rightarrow> ('s \<Rightarrow> 's) \<Rightarrow> ('s, 's \<Rightarrow> 's) eff"

text \<open>\<^verbatim>\<open>export function createStore(): Store { throw new Error('...') }\<close>\<close>

definition createStore :: "unit \<Rightarrow> error + ('s, 'o) Store" where
  "createStore u = Inl (Error ''createStore will be implemented in Day 2'')"

definition getDefaultStore :: "unit \<Rightarrow> error + ('s, 'o) Store" where
  "getDefaultStore u = Inl (Error ''getDefaultStore will be implemented in Day 2'')"

text \<open>\<^verbatim>\<open>export function useStore() { throw new Error('...') }\<close>\<close>

definition useStore :: "unit \<Rightarrow> error + ('s, 'o) Store" where
  "useStore u = Inl (Error ''useStore will be implemented in Day 5'')"




text \<open>
  A statement \<^verbatim>\<open>const x = e; rest\<close>: when \<^verbatim>\<open>e\<close> throws, the rest does not run and
  the script ends with the exception. \<open>then_do\<close> is the step of a script, \<open>bind_eff\<close>
  the same for calls that also change the state of a store.
\<close>

definition then_do :: "error + 'a \<Rightarrow> ('a \<Rightarrow> error + 'b) \<Rightarrow> error + 'b" where
  "then_do m k = (case m of Inl e \<Rightarrow> Inl e | Inr x \<Rightarrow> k x)"

definition bind_eff :: "('s, 'a) eff \<Rightarrow> ('a \<Rightarrow> ('s, 'b) eff) \<Rightarrow> ('s, 'b) eff" where
  "bind_eff m k s = (case m s of (Inl e, s') \<Rightarrow> (Inl e, s') | (Inr x, s') \<Rightarrow> k x s')"

section \<open>Scripts that use the library\<close>

text \<open>A run of calls of \<^verbatim>\<open>atom\<close>, in order, each on the state the one before left.\<close>

fun atoms ::
  "(('s, 'o) first_arg \<times> 's Write option) list \<Rightarrow> runtime \<Rightarrow> ('s, 'o) Atom list \<times> runtime" where
  "atoms [] rt = ([], rt)"
| "atoms ((rd, wr) # cs) rt =
     (let (a, rt') = atom rd wr rt; (as, rt'') = atoms cs rt' in (a # as, rt''))"

text \<open>One and the same call, \<^verbatim>\<open>atom(1)\<close>, to be repeated.\<close>

definition same_call :: "(unit, unit) first_arg \<times> unit Write option" where
  "same_call = (Value (VNum 1), None)"

text \<open>
  \<^verbatim>\<open>get => get(A) * 2\<close>, for a cell \<^verbatim>\<open>A\<close> that holds a number; the product is
  exact for the small integers used here.
\<close>

fun times2 :: "val \<Rightarrow> val" where
  "times2 (VNum n) = VNum (n * 2)"

definition double_of :: "descriptor \<Rightarrow> ('s, 'o) Read" where
  "double_of a this get options s =
     (case get a s of (Inl e, s') \<Rightarrow> (Inl e, s') | (Inr v, s') \<Rightarrow> (Inr (times2 v), s'))"

text \<open>\<^verbatim>\<open>const A = atom(1); const B = atom(get => get(A) * 2)\<close>\<close>

definition cells_AB :: "runtime \<Rightarrow> ('s, 'o) Atom \<times> ('s, 'o) Atom \<times> runtime" where
  "cells_AB rt =
     (let (A, rt1) = atom (Value (VNum 1)) None rt;
          (B, rt2) = atom (Function (double_of (handle A))) None rt1
      in (A, B, rt2))"

text \<open>
  \<^verbatim>\<open>const store = createStore(); const r1 = store.get(B); store.set(A, 5);
  const r2 = store.get(B)\<close>, giving \<^verbatim>\<open>[r1, r2]\<close>. \<open>s0\<close> is the state a new store
  would start in.
\<close>

definition scenario_double :: "'s \<Rightarrow> runtime \<Rightarrow> error + val \<times> val" where
  "scenario_double s0 rt =
     (let (A, B, rt') = (cells_AB rt :: ('s, unit) Atom \<times> ('s, unit) Atom \<times> runtime) in
      then_do (createStore ()) (\<lambda>store.
        fst (bind_eff (store_get store B) (\<lambda>r1.
             bind_eff (store_set store A [Plain (VNum 5)]) (\<lambda>_.
             bind_eff (store_get store B) (\<lambda>r2 s. (Inr (r1, r2), s)))) s0)))"

text \<open>
  \<^verbatim>\<open>const P = atom(0); const store = createStore(); store.set(P, v);
  return store.get(P)\<close>
\<close>

definition scenario_write_read :: "SetStateAction \<Rightarrow> 's \<Rightarrow> runtime \<Rightarrow> error + val" where
  "scenario_write_read v s0 rt =
     (let (P, rt') = (atom (Value (VNum 0)) None rt :: ('s, unit) Atom \<times> runtime) in
      then_do (createStore ()) (\<lambda>store.
        fst (bind_eff (store_set store P [v]) (\<lambda>_. store_get store P) s0)))"

text \<open>
  \<^verbatim>\<open>const D = atom(f); const store = createStore(); return store.set(D, v)\<close>,
  for a read function \<^verbatim>\<open>f\<close>: the result of the write and the state of the store after it.
\<close>

definition scenario_write_readonly ::
  "('s, unit) Read \<Rightarrow> SetStateAction \<Rightarrow> 's \<Rightarrow> runtime \<Rightarrow> error + val \<times> 's" where
  "scenario_write_readonly f v s0 rt =
     (let (D, rt') = atom (Function f) None rt in
      then_do (createStore ()) (\<lambda>store.
        case store_set store D [v] s0 of
          (Inl e, s') \<Rightarrow> Inl e
        | (Inr r, s') \<Rightarrow> Inr (r, s')))"

text \<open>
  \<^verbatim>\<open>const C = atom(read, write); const store = createStore(); return store.get(C)\<close>,
  for any arguments of \<^verbatim>\<open>atom\<close>: reading any cell through a store.
\<close>

definition scenario_read ::
  "('s, unit) first_arg \<Rightarrow> 's Write option \<Rightarrow> 's \<Rightarrow> runtime \<Rightarrow> error + val" where
  "scenario_read rd wr s0 rt =
     (let (C, rt') = atom rd wr rt in
      then_do (createStore ()) (\<lambda>store. fst (store_get store C s0)))"

text \<open>
  Computes that read the cell itself. Directly:
  \<^verbatim>\<open>atom(function (get) { return get(this) })\<close>. Through another cell:
  \<^verbatim>\<open>const X = atom(get => get(Y)); const Y = atom(get => get(X))\<close>, where the
  closure of \<^verbatim>\<open>X\<close> names \<^verbatim>\<open>Y\<close> before \<^verbatim>\<open>Y\<close> is made; \<open>next_derived\<close> is the
  object that the name will hold, the second descriptor made from here.
\<close>

definition self_reading :: "('s, 'o) Read" where
  "self_reading this get options = get this"

definition reading :: "descriptor \<Rightarrow> ('s, 'o) Read" where
  "reading a this get options = get a"

definition next_derived :: "runtime \<Rightarrow> descriptor" where
  "next_derived rt =
     \<lparr>self = nextObj rt + 1,
      key = ''atom'' @ string_of_nat (increment (increment (keyCount rt))),
      init = None, debugLabel = None\<rparr>"

definition cells_cycle :: "runtime \<Rightarrow> ('s, 'o) Atom \<times> ('s, 'o) Atom \<times> runtime" where
  "cells_cycle rt =
     (let (X, rt1) = atom (Function (reading (next_derived rt))) None rt;
          (Y, rt2) = atom (Function (reading (handle X))) None rt1
      in (X, Y, rt2))"

text \<open>
  \<^verbatim>\<open>const store = createStore(); return store.get(X)\<close> for the \<^verbatim>\<open>X\<close> of the cycle.
\<close>

definition scenario_cycle_read :: "'s \<Rightarrow> runtime \<Rightarrow> error + val" where
  "scenario_cycle_read s0 rt =
     (let (X, Y, rt') = (cells_cycle rt :: ('s, unit) Atom \<times> ('s, unit) Atom \<times> runtime) in
      then_do (createStore ()) (\<lambda>store. fst (store_get store X s0)))"




text \<open>
  Getters and setters to run a descriptor against: one that answers every read with the
  same value, one that throws on every read, one that also records which cells were
  read, and a pair that keeps one value for each cell.
\<close>

definition constant_get :: "val \<Rightarrow> 's Getter" where
  "constant_get v a s = (Inr v, s)"

definition throwing_get :: "error \<Rightarrow> 's Getter" where
  "throwing_get e a s = (Inl e, s)"


definition cell_get :: "(ref \<Rightarrow> val) Getter" where
  "cell_get a s = (Inr (s (self a)), s)"

definition cell_set :: "(ref \<Rightarrow> val) Setter" where
  "cell_set a args s =
     (case args of
        Plain v # _ \<Rightarrow> (Inr VUndefined, s(self a := v))
      | _ \<Rightarrow> (Inl (Error ''not a value''), s))"

text \<open>
  The descriptor that the first \<^verbatim>\<open>atom(1)\<close> of a process returns, as a callee is handed it.
\<close>

definition first_cell :: descriptor where
  "first_cell = \<lparr>self = 0, key = ''atom1'', init = Some (VNum 1), debugLabel = None\<rparr>"

text \<open>\<^verbatim>\<open>prev => prev + 1\<close> on a number.\<close>

fun plus1 :: "val \<Rightarrow> val" where
  "plus1 (VNum n) = VNum (n + 1)"

section \<open>Facts about the operations\<close>

subsection \<open>What \<open>atom\<close> returns\<close>

lemma atom_value_fields:
  "init (fst (atom (Value v) wr rt)) = Some v"
  "read (fst (atom (Value v) wr rt)) = defaultRead"
  "write (fst (atom (Value v) None rt)) = Some defaultWrite"
  by (cases wr; simp add: atom_def Let_def)+

lemma atom_function_fields:
  "init (fst (atom (Function f) wr rt)) = None"
  "read (fst (atom (Function f) wr rt)) = f"
  "write (fst (atom (Function f) None rt)) = None"
  by (cases wr; simp add: atom_def Let_def)+

lemma atom_runtime: "snd (atom rd wr rt) = \<lparr>keyCount = increment (keyCount rt), nextObj = nextObj rt + 1\<rparr>"
  by (simp add: atom_def Let_def)

lemma atom_key: "key (fst (atom rd wr rt)) = ''atom'' @ string_of_nat (increment (keyCount rt))"
  by (cases rd; cases wr) (simp_all add: atom_def Let_def)

lemma atom_self: "self (fst (atom rd wr rt)) = nextObj rt"
  by (cases rd; cases wr) (simp_all add: atom_def Let_def)

lemma atom_debugLabel: "debugLabel (fst (atom rd wr rt)) = None"
  by (cases rd; cases wr) (simp_all add: atom_def Let_def)

lemma handle_fields [simp]:
  "self (handle a) = self a" "key (handle a) = key a" "init (handle a) = init a"
  "debugLabel (handle a) = debugLabel a"
  by (simp_all add: handle_def)


lemma increment_min: "n \<le> 2 ^ 53 \<Longrightarrow> increment n = min (n + 1) (2 ^ 53)"
  by (simp add: increment_def min_def)

subsection \<open>The default setter\<close>

lemma defaultWrite_plain: "defaultWrite this g st [Plain x] s = st this [Plain x] s"
  by (simp add: defaultWrite_def)

lemma defaultWrite_updater:
  "defaultWrite this g st [Updater f] s =
     (case g this s of (Inl e, s') \<Rightarrow> (Inl e, s') | (Inr prev, s') \<Rightarrow> st this [Plain (f prev)] s')"
  by (simp add: defaultWrite_def)

subsection \<open>A script stops where \<open>createStore\<close> throws\<close>

lemma createStore_stops: "then_do (createStore u) k = Inl (Error ''createStore will be implemented in Day 2'')"
  by (simp add: then_do_def createStore_def)

lemma cells_AB_fields:
  assumes "cells_AB rt = (A, B, rt')"
  shows "init A = Some (VNum 1)" and "init B = None" and "read B = double_of (handle A)"
  using assms
  by (auto simp: cells_AB_def split_def Let_def prod_eq_iff atom_value_fields atom_function_fields)

subsection \<open>Decimal rendering is injective\<close>

lemma digit_inj: "a < 10 \<Longrightarrow> b < 10 \<Longrightarrow> digit a = digit b \<Longrightarrow> a = b"
proof -
  assume a: "a < 10" and b: "b < 10" and e: "digit a = digit b"
  have A: "a \<in> {0,1,2,3,4,5,6,7,8,9}" using a by auto
  have B: "b \<in> {0,1,2,3,4,5,6,7,8,9}" using b by auto
  show ?thesis using A B e by (auto simp: digit_def)
qed

lemma string_of_nat_nonempty: "string_of_nat n \<noteq> []"
  by (subst string_of_nat.simps) simp

lemma string_of_nat_inj: "string_of_nat n = string_of_nat m \<Longrightarrow> n = m"
proof (induction n arbitrary: m rule: string_of_nat.induct)
  case (1 n)
  show ?case
  proof (cases "n < 10")
    case True
    then have sn: "string_of_nat n = [digit n]" by (subst string_of_nat.simps) simp
    show ?thesis
    proof (cases "m < 10")
      case True
      then have "string_of_nat m = [digit m]" by (subst string_of_nat.simps) simp
      with sn "1.prems" have "digit n = digit m" by simp
      with \<open>n < 10\<close> \<open>m < 10\<close> show ?thesis by (rule digit_inj)
    next
      case False
      then have "string_of_nat m = string_of_nat (m div 10) @ [digit (m mod 10)]"
        by (subst string_of_nat.simps) simp
      with sn "1.prems" have "string_of_nat (m div 10) = []" by simp
      then show ?thesis by (simp add: string_of_nat_nonempty)
    qed
  next
    case False
    then have sn: "string_of_nat n = string_of_nat (n div 10) @ [digit (n mod 10)]"
      by (subst string_of_nat.simps) simp
    show ?thesis
    proof (cases "m < 10")
      case True
      then have "string_of_nat m = [digit m]" by (subst string_of_nat.simps) simp
      with sn "1.prems" have "string_of_nat (n div 10) = []" by simp
      then show ?thesis by (simp add: string_of_nat_nonempty)
    next
      case mf: False
      then have sm: "string_of_nat m = string_of_nat (m div 10) @ [digit (m mod 10)]"
        by (subst string_of_nat.simps) simp
      from sn sm "1.prems" have e1: "string_of_nat (n div 10) = string_of_nat (m div 10)"
        and e2: "digit (n mod 10) = digit (m mod 10)" by simp_all
      from "1.IH" [OF False e1] have d: "n div 10 = m div 10" .
      have "n mod 10 = m mod 10" using e2 by (intro digit_inj) simp_all
      with d show ?thesis by (metis div_mult_mod_eq)
    qed
  qed
qed

lemma string_of_nat_limit: "string_of_nat (2 ^ 53) = ''9007199254740992''"
  by (simp add: string_of_nat.simps digit_def)

subsection \<open>Runs of calls of \<open>atom\<close>\<close>

lemma length_atoms: "length (fst (atoms cs rt)) = length cs"
  by (induction cs arbitrary: rt) (auto simp: split_def Let_def)

lemma atoms_key_nth:
  "keyCount rt \<le> 2 ^ 53 \<Longrightarrow> i < length cs \<Longrightarrow>
   key (fst (atoms cs rt) ! i) = ''atom'' @ string_of_nat (min (keyCount rt + i + 1) (2 ^ 53))"
proof (induction cs arbitrary: rt i)
  case Nil
  then show ?case by simp
next
  case (Cons c cs)
  obtain rd wr where c: "c = (rd, wr)" by (cases c)
  let ?rt = "snd (atom rd wr rt)"
  have k: "keyCount ?rt = increment (keyCount rt)" by (simp add: atom_runtime)
  have le: "keyCount ?rt \<le> 2 ^ 53" using Cons.prems(1) by (simp add: k increment_def)
  show ?case
  proof (cases i)
    case 0
    then show ?thesis using increment_min [OF Cons.prems(1)]
      by (simp add: c split_def Let_def atom_key)
  next
    case (Suc j)
    then have j: "j < length cs" using Cons.prems(2) by simp
    have "key (fst (atoms cs ?rt) ! j) = ''atom'' @ string_of_nat (min (keyCount ?rt + j + 1) (2 ^ 53))"
      using Cons.IH [OF le j] .
    moreover have "min (keyCount ?rt + j + 1) (2 ^ 53) = min (keyCount rt + i + 1) ((2::nat) ^ 53)"
      using Cons.prems(1) by (simp add: k increment_def Suc min_def)
    ultimately show ?thesis by (simp add: c Suc split_def Let_def)
  qed
qed

lemma atoms_self_nth: "i < length cs \<Longrightarrow> self (fst (atoms cs rt) ! i) = nextObj rt + i"
proof (induction cs arbitrary: rt i)
  case Nil
  then show ?case by simp
next
  case (Cons c cs)
  obtain rd wr where c: "c = (rd, wr)" by (cases c)
  show ?case
  proof (cases i)
    case 0
    then show ?thesis by (simp add: c split_def Let_def atom_self)
  next
    case (Suc j)
    then have "j < length cs" using Cons.prems by simp
    from Cons.IH [OF this, of "snd (atom rd wr rt)"]
    show ?thesis by (simp add: c Suc split_def Let_def atom_runtime)
  qed
qed

lemma atoms_keyCount:
  "keyCount rt \<le> 2 ^ 53 \<Longrightarrow> keyCount (snd (atoms cs rt)) = min (keyCount rt + length cs) (2 ^ 53)"
proof (induction cs arbitrary: rt)
  case Nil
  then show ?case by simp
next
  case (Cons c cs)
  obtain rd wr where c: "c = (rd, wr)" by (cases c)
  let ?rt = "snd (atom rd wr rt)"
  have k: "keyCount ?rt = increment (keyCount rt)" by (simp add: atom_runtime)
  have le: "keyCount ?rt \<le> 2 ^ 53" using Cons.prems(1) by (simp add: k increment_def)
  from Cons.IH [OF le] show ?case using Cons.prems
    by (simp add: c split_def Let_def k increment_def min_def)
qed

section \<open>Construction: primitive and derived cells\<close>

text \<open>
  C2. For every call of \<^verbatim>\<open>atom\<close>, the descriptor carries \<^verbatim>\<open>init\<close> exactly when the
  first argument is not a function. A first argument that is a value gives a primitive
  cell: \<^verbatim>\<open>init\<close> holds the value, the read is \<^verbatim>\<open>defaultRead\<close> and the branch installs
  \<^verbatim>\<open>defaultWrite\<close>, which is the write of the descriptor unless a write argument
  replaces it. A first argument that is a function gives a derived cell: no \<^verbatim>\<open>init\<close>,
  and the read is exactly that function.
\<close>

theorem atom_init_iff_not_function:
  "(init (fst (atom rd wr rt)) \<noteq> None) = (\<not> is_function rd) \<and>
   (case rd of
      Value v \<Rightarrow>
        init (fst (atom rd wr rt)) = Some v \<and>
        read (fst (atom rd wr rt)) = defaultRead \<and>
        write (fst (atom rd wr rt)) = Some (case wr of None \<Rightarrow> defaultWrite | Some w \<Rightarrow> w)
    | Function f \<Rightarrow>
        init (fst (atom rd wr rt)) = None \<and>
        read (fst (atom rd wr rt)) = f)"
proof (cases rd)
  case (Value v)
  then show ?thesis
    by (cases wr) (simp_all add: atom_def Let_def)
next
  case (Function f)
  then show ?thesis
    by (simp add: atom_function_fields)
qed

text \<open>
  C7. For every call of \<^verbatim>\<open>atom\<close>, the descriptor has a write function exactly when
  a write argument was given or the first argument is not a function. A write argument
  that is given is the descriptor's write (it replaces \<^verbatim>\<open>defaultWrite\<close>), and a cell
  made from a read function alone has no write.
\<close>

theorem atom_write_iff:
  "(\<exists>w. write (fst (atom rd wr rt)) = Some w) = ((\<exists>w. wr = Some w) \<or> \<not> is_function rd) \<and>
   write (fst (atom rd (Some w) rt)) = Some w \<and>
   write (fst (atom (Function f) None rt)) = None \<and>
   write (fst (atom (Value v) None rt)) = Some defaultWrite"
  by (cases rd; cases wr) (simp_all add: atom_def Let_def)

section \<open>Keys and identities\<close>

text \<open>
  C6. Every call of \<^verbatim>\<open>atom\<close> returns a new object, whatever its arguments. In a run
  of calls that does not take the counter beyond \<open>2^53\<close> (from the start of the process:
  the first \<open>2^53\<close> calls), every call raises the counter by exactly one, call number
  \<open>i\<close> gets the key \<^verbatim>\<open>atom\<close> followed by the decimal digits of the counter, and the
  keys of the run are pairwise different, also for identical arguments.
\<close>

theorem atom_keys_fresh_below_limit:
  "distinct (map self (fst (atoms cs rt))) \<and>
   (keyCount rt + length cs \<le> 2 ^ 53 \<longrightarrow>
      distinct (map key (fst (atoms cs rt))) \<and>
      keyCount (snd (atoms cs rt)) = keyCount rt + length cs \<and>
      (\<forall>i < length cs.
         key (fst (atoms cs rt) ! i) = ''atom'' @ string_of_nat (keyCount rt + i + 1)))"
proof (intro conjI impI)
  show "distinct (map self (fst (atoms cs rt)))"
    by (simp add: distinct_conv_nth length_atoms atoms_self_nth)
next
  assume bound: "keyCount rt + length cs \<le> 2 ^ 53"
  let ?as = "fst (atoms cs rt)"
  from bound have le: "keyCount rt \<le> 2 ^ 53" by simp
  have keys: "key (?as ! i) = ''atom'' @ string_of_nat (keyCount rt + i + 1)"
    if "i < length cs" for i
    using atoms_key_nth [OF le that] that bound by (simp add: min_def)
  have "key (?as ! i) \<noteq> key (?as ! j)" if "i < length cs" "j < length cs" "i \<noteq> j" for i j
  proof
    assume "key (?as ! i) = key (?as ! j)"
    then have "string_of_nat (keyCount rt + i + 1) = string_of_nat (keyCount rt + j + 1)"
      using keys that by simp
    then have "keyCount rt + i + 1 = keyCount rt + j + 1" by (rule string_of_nat_inj)
    with that show False by simp
  qed
  then show "distinct (map key ?as)"
    by (simp add: distinct_conv_nth length_atoms)
  show "keyCount (snd (atoms cs rt)) = keyCount rt + length cs"
    using atoms_keyCount [OF le, of cs] bound by (simp add: min_def)
  from keys show "\<forall>i < length cs.
      key (?as ! i) = ''atom'' @ string_of_nat (keyCount rt + i + 1)"
    by blast
qed

theorem atom_keys_fresh_below_limit_witness:
  "keyCount initial_runtime + length [same_call, same_call] \<le> 2 ^ 53 \<and>
   distinct (map key (fst (atoms [same_call, same_call] initial_runtime))) \<and>
   distinct (map self (fst (atoms [same_call, same_call] initial_runtime))) \<and>
   keyCount (snd (atoms [same_call, same_call] initial_runtime)) = 2 \<and>
   key (fst (atoms [same_call, same_call] initial_runtime) ! 0) = ''atom1'' \<and>
   key (fst (atoms [same_call, same_call] initial_runtime) ! 1) = ''atom2''"
proof -
  have h: "keyCount initial_runtime + length [same_call, same_call] \<le> 2 ^ 53"
    by (simp add: initial_runtime_def)
  note t = atom_keys_fresh_below_limit [of "[same_call, same_call]" initial_runtime]
  from t h have run: "distinct (map key (fst (atoms [same_call, same_call] initial_runtime))) \<and>
      keyCount (snd (atoms [same_call, same_call] initial_runtime)) =
        keyCount initial_runtime + length [same_call, same_call] \<and>
      (\<forall>i < length [same_call, same_call].
         key (fst (atoms [same_call, same_call] initial_runtime) ! i) =
           ''atom'' @ string_of_nat (keyCount initial_runtime + i + 1))"
    by (elim conjE impE) (assumption, intro conjI)
  then have nth: "key (fst (atoms [same_call, same_call] initial_runtime) ! i) =
      ''atom'' @ string_of_nat (keyCount initial_runtime + i + 1)" if "i < 2" for i
    using that by simp
  have k0: "key (fst (atoms [same_call, same_call] initial_runtime) ! 0) = ''atom1''"
    using nth [of 0] by (simp add: initial_runtime_def string_of_nat.simps digit_def)
  have k1: "key (fst (atoms [same_call, same_call] initial_runtime) ! 1) = ''atom2''"
    using nth [of 1] by (simp add: initial_runtime_def string_of_nat.simps digit_def)
  from t run h k0 k1 show ?thesis
    by (simp add: initial_runtime_def)
qed

text \<open>
  At \<open>2^53\<close> the increment leaves the counter where it is: calls number \<open>2^53\<close> and
  \<open>2^53 + 1\<close> of a process get the same key, \<^verbatim>\<open>atom9007199254740992\<close>, on two
  different objects.
\<close>

theorem atom_key_repeats_counterexample:
  "key (fst (atoms (replicate (2 ^ 53 + 1) same_call) initial_runtime) ! (2 ^ 53 - 1)) =
     ''atom9007199254740992'' \<and>
   key (fst (atoms (replicate (2 ^ 53 + 1) same_call) initial_runtime) ! (2 ^ 53)) =
     ''atom9007199254740992'' \<and>
   self (fst (atoms (replicate (2 ^ 53 + 1) same_call) initial_runtime) ! (2 ^ 53 - 1)) \<noteq>
     self (fst (atoms (replicate (2 ^ 53 + 1) same_call) initial_runtime) ! (2 ^ 53)) \<and>
   keyCount (snd (atoms (replicate (2 ^ 53 + 1) same_call) initial_runtime)) =
     keyCount (snd (atoms (replicate (2 ^ 53) same_call) initial_runtime))"
proof -
  have le: "keyCount initial_runtime \<le> 2 ^ 53" by (simp add: initial_runtime_def)
  have a: "key (fst (atoms (replicate (2 ^ 53 + 1) same_call) initial_runtime) ! (2 ^ 53 - 1)) =
      ''atom'' @ string_of_nat (2 ^ 53)"
    using atoms_key_nth [OF le, of "2 ^ 53 - 1" "replicate (2 ^ 53 + 1) same_call"]
    by (simp add: initial_runtime_def)
  have b: "key (fst (atoms (replicate (2 ^ 53 + 1) same_call) initial_runtime) ! (2 ^ 53)) =
      ''atom'' @ string_of_nat (2 ^ 53)"
    using atoms_key_nth [OF le, of "2 ^ 53" "replicate (2 ^ 53 + 1) same_call"]
    by (simp add: initial_runtime_def)
  have i: "self (fst (atoms (replicate (2 ^ 53 + 1) same_call) initial_runtime) ! (2 ^ 53 - 1)) \<noteq>
      self (fst (atoms (replicate (2 ^ 53 + 1) same_call) initial_runtime) ! (2 ^ 53))"
    by (simp add: atoms_self_nth)
  have c: "keyCount (snd (atoms (replicate (2 ^ 53 + 1) same_call) initial_runtime)) = 2 ^ 53"
    using atoms_keyCount [OF le, of "replicate (2 ^ 53 + 1) same_call"]
    by (simp add: initial_runtime_def)
  have d: "keyCount (snd (atoms (replicate (2 ^ 53) same_call) initial_runtime)) = 2 ^ 53"
    using atoms_keyCount [OF le, of "replicate (2 ^ 53) same_call"]
    by (simp add: initial_runtime_def)
  from a b have "key (fst (atoms (replicate (2 ^ 53 + 1) same_call) initial_runtime) ! (2 ^ 53 - 1)) =
      ''atom9007199254740992''"
    and "key (fst (atoms (replicate (2 ^ 53 + 1) same_call) initial_runtime) ! (2 ^ 53)) =
      ''atom9007199254740992''"
    by (simp_all only: string_of_nat_limit append.simps)
  with i c d show ?thesis by simp
qed

section \<open>The default compute and the default setter\<close>



text \<open>
  C3. \<^verbatim>\<open>createStore\<close> throws, so a script cannot write a primitive cell \<^verbatim>\<open>P\<close> and read
  it back through a store: it ends with the Error of \<^verbatim>\<open>createStore\<close>. A primitive cell
  made without a write argument has \<^verbatim>\<open>defaultWrite\<close>. Given a getter and a setter,
  \<^verbatim>\<open>defaultWrite\<close> calls \<^verbatim>\<open>set(P, v)\<close> when \<^verbatim>\<open>v\<close> is not a function; when \<^verbatim>\<open>v\<close> is a
  function it calls \<^verbatim>\<open>get(P)\<close> and then \<^verbatim>\<open>set(P, v(prior))\<close>, passing on the result and
  not \<^verbatim>\<open>v\<close>; when \<^verbatim>\<open>get(P)\<close> throws, the setter is not called.
\<close>

theorem defaultWrite_sets_value_or_update:
  "scenario_write_read v s0 rt = Inl (Error ''createStore will be implemented in Day 2'') \<and>
   write (fst (atom (Value v0) None rt)) = Some defaultWrite \<and>
   (\<forall>this g st x s. defaultWrite this g st [Plain x] s = st this [Plain x] s) \<and>
   (\<forall>this g st f s prev s'. g this s = (Inr prev, s') \<longrightarrow>
      defaultWrite this g st [Updater f] s = st this [Plain (f prev)] s') \<and>
   (\<forall>this g st f s e s'. g this s = (Inl e, s') \<longrightarrow>
      defaultWrite this g st [Updater f] s = (Inl e, s'))"
proof (intro conjI allI impI)
  show "scenario_write_read v s0 rt = Inl (Error ''createStore will be implemented in Day 2'')"
    by (simp add: scenario_write_read_def split_def createStore_stops)
  show "write (fst (atom (Value v0) None rt)) = Some defaultWrite"
    by (rule atom_value_fields)
qed (simp_all add: defaultWrite_plain defaultWrite_updater)

theorem defaultWrite_sets_value_or_update_witness:
  "cell_get first_cell (\<lambda>a. VNum 1) = (Inr (VNum 1), \<lambda>a. VNum 1) \<and>
   snd (defaultWrite first_cell cell_get cell_set [Updater plus1] (\<lambda>a. VNum 1)) 0 = VNum 2 \<and>
   snd (defaultWrite first_cell cell_get cell_set [Plain (VNum 7)] (\<lambda>a. VNum 1)) 0 = VNum 7 \<and>
   throwing_get (Error ''no value'') first_cell (\<lambda>a::ref. VNum 1) =
     (Inl (Error ''no value''), \<lambda>a. VNum 1) \<and>
   defaultWrite first_cell (throwing_get (Error ''no value'')) cell_set [Updater plus1]
       (\<lambda>a. VNum 1) =
     (Inl (Error ''no value''), \<lambda>a. VNum 1)"
proof -
  let ?s = "\<lambda>a::ref. VNum 1"
  have g: "cell_get first_cell ?s = (Inr (VNum 1), ?s)"
    by (simp add: cell_get_def)
  have h: "throwing_get (Error ''no value'') first_cell ?s = (Inl (Error ''no value''), ?s)"
    by (simp add: throwing_get_def)
  note t = defaultWrite_sets_value_or_update [of "Plain (VNum 7)" ?s initial_runtime "VNum 0"]
  have p: "defaultWrite first_cell cell_get cell_set [Plain (VNum 7)] ?s =
      cell_set first_cell [Plain (VNum 7)] ?s"
    by (rule t [THEN conjunct2, THEN conjunct2, THEN conjunct1, rule_format])
  have u: "defaultWrite first_cell cell_get cell_set [Updater plus1] ?s =
      cell_set first_cell [Plain (plus1 (VNum 1))] ?s"
    using g
    by (rule t [THEN conjunct2, THEN conjunct2, THEN conjunct2, THEN conjunct1, rule_format,
        of cell_get first_cell ?s "VNum 1" ?s cell_set plus1])
  have e: "defaultWrite first_cell (throwing_get (Error ''no value'')) cell_set
      [Updater plus1] ?s = (Inl (Error ''no value''), ?s)"
    using h
    by (rule t [THEN conjunct2, THEN conjunct2, THEN conjunct2, THEN conjunct2, rule_format,
        of "throwing_get (Error ''no value'')" first_cell ?s "Error ''no value''" ?s
          cell_set plus1])
  have z: "self first_cell = 0"
    by (simp add: first_cell_def)
  show ?thesis
    by (simp add: g h p u e z cell_set_def)
qed

theorem scenario_write_read_counterexample:
  "scenario_write_read (Plain (VNum 7)) () initial_runtime =
     Inl (Error ''createStore will be implemented in Day 2'') \<and>
   scenario_write_read (Plain (VNum 7)) () initial_runtime \<noteq> Inr (VNum 7)"
  by (simp add: scenario_write_read_def split_def then_do_def createStore_def)

section \<open>Scripts that need a store\<close>

text \<open>
  C1. With \<^verbatim>\<open>A = atom(1)\<close> and \<^verbatim>\<open>B = atom(get => get(A) * 2)\<close>, a script that creates
  a store and reads \<^verbatim>\<open>B\<close>, writes 5 to \<^verbatim>\<open>A\<close> and reads \<^verbatim>\<open>B\<close> again ends with the
  Error of \<^verbatim>\<open>createStore\<close>, before any read. The descriptors are as the scenario wants
  them: \<^verbatim>\<open>A\<close> is primitive with \<^verbatim>\<open>init\<close> 1, \<^verbatim>\<open>B\<close> is derived, and the read of
  \<^verbatim>\<open>B\<close> gives 2 with any getter that gives 1 for \<^verbatim>\<open>A\<close>, and 10 with any getter that
  gives 5 for \<^verbatim>\<open>A\<close>.
\<close>

theorem scenario_double_at_descriptors:
  "scenario_double s0 rt = Inl (Error ''createStore will be implemented in Day 2'') \<and>
   (case cells_AB rt :: ('s, 'o) Atom \<times> ('s, 'o) Atom \<times> runtime of (A, B, rt') \<Rightarrow>
      init A = Some (VNum 1) \<and> init B = None \<and>
      (\<forall>g options s s'. g (handle A) s = (Inr (VNum 1), s') \<longrightarrow>
         read B (handle B) g options s = (Inr (VNum 2), s')) \<and>
      (\<forall>g options s s'. g (handle A) s = (Inr (VNum 5), s') \<longrightarrow>
         read B (handle B) g options s = (Inr (VNum 10), s')))"
proof -
  have stops: "scenario_double s0 rt = Inl (Error ''createStore will be implemented in Day 2'')"
    by (simp add: scenario_double_def split_def createStore_stops)
  obtain A B rt' where c: "cells_AB rt = (A :: ('s, 'o) Atom, B :: ('s, 'o) Atom, rt')"
    by (cases "cells_AB rt :: ('s, 'o) Atom \<times> ('s, 'o) Atom \<times> runtime") auto
  note f = cells_AB_fields [OF c]
  have "read B (handle B) g options s = (Inr (VNum (n * 2)), s')"
    if "g (handle A) s = (Inr (VNum n), s')" for g options s s' n
    using that by (simp add: f double_of_def)
  from this [of _ _ 1] this [of _ _ 5] f(1,2) stops
  show ?thesis by (simp add: c)
qed

theorem scenario_double_at_descriptors_witness:
  "(case cells_AB initial_runtime of (A :: (unit, unit) Atom, B :: (unit, unit) Atom, rt') \<Rightarrow>
      constant_get (VNum 1) (handle A) () = (Inr (VNum 1), ()) \<and>
      read B (handle B) (constant_get (VNum 1)) () () = (Inr (VNum 2), ()) \<and>
      constant_get (VNum 5) (handle A) () = (Inr (VNum 5), ()) \<and>
      read B (handle B) (constant_get (VNum 5)) () () = (Inr (VNum 10), ()))"
proof -
  obtain A B rt' where
    c: "cells_AB initial_runtime = (A :: (unit, unit) Atom, B :: (unit, unit) Atom, rt')"
    by (cases "cells_AB initial_runtime :: (unit, unit) Atom \<times> (unit, unit) Atom \<times> runtime") auto
  have g1: "constant_get (VNum 1) (handle A) () = (Inr (VNum 1), ())"
    and g5: "constant_get (VNum 5) (handle A) () = (Inr (VNum 5), ())"
    by (simp_all add: constant_get_def)
  from scenario_double_at_descriptors [of "()" initial_runtime, where ?'s = unit and ?'o = unit] g1 g5
  show ?thesis by (simp add: c)
qed

theorem scenario_double_counterexample:
  "scenario_double () initial_runtime = Inl (Error ''createStore will be implemented in Day 2'') \<and>
   scenario_double () initial_runtime \<noteq> Inr (VNum 2, VNum 10)"
  by (simp add: scenario_double_def split_def then_do_def createStore_def)

text \<open>
  C4. A cell made from a read function alone has no write and no \<^verbatim>\<open>init\<close>. A script
  that creates a store to write such a cell ends with the Error of \<^verbatim>\<open>createStore\<close>,
  handed to the caller; the write is never reached and there is no store whose state
  could change.
\<close>

theorem write_readonly_stops_at_createStore:
  "write (fst (atom (Function f) None rt)) = None \<and>
   init (fst (atom (Function f) None rt)) = None \<and>
   scenario_write_readonly f v s0 rt =
     Inl (Error ''createStore will be implemented in Day 2'')"
proof -
  have "scenario_write_readonly f v s0 rt =
     Inl (Error ''createStore will be implemented in Day 2'')"
    unfolding scenario_write_readonly_def split_def Let_def by (rule createStore_stops)
  then show ?thesis by (simp add: atom_function_fields)
qed

theorem scenario_write_readonly_counterexample:
  "write (fst (atom (Function (double_of first_cell)) None initial_runtime :: (unit, unit) Atom \<times> runtime)) = None \<and>
   scenario_write_readonly (double_of first_cell) (Plain (VNum 3)) () initial_runtime =
     Inl (Error ''createStore will be implemented in Day 2'')"
  by (simp add: scenario_write_readonly_def split_def then_do_def createStore_def
      atom_function_fields)

text \<open>
  C5. For every cell, and so for every cell whose compute reads the cell itself, directly
  or through other cells: \<^verbatim>\<open>atom\<close> makes the descriptor without any check (a function
  given as first argument is the read, as it is, and there is no \<^verbatim>\<open>init\<close>), and a
  script that creates a store to read the cell ends with the Error of \<^verbatim>\<open>createStore\<close>
  before any compute runs. The reads do no recursion of their own: a compute that reads
  the cell itself is one call of the getter on that cell, and in a cycle of two cells the
  read of each is one call of the getter on the other.
\<close>

theorem read_stops_at_createStore:
  "scenario_read rd wr s0 rt = Inl (Error ''createStore will be implemented in Day 2'') \<and>
   scenario_cycle_read s0 rt = Inl (Error ''createStore will be implemented in Day 2'') \<and>
   init (fst (atom (Function f) wr rt)) = None \<and>
   read (fst (atom (Function f) wr rt)) = f \<and>
   (case atom (Function self_reading) None rt of (X, rt') \<Rightarrow>
      (\<forall>g options s. read X (handle X) g options s = g (handle X) s)) \<and>
   (case cells_cycle rt :: ('s, 'o) Atom \<times> ('s, 'o) Atom \<times> runtime of (X, Y, rt') \<Rightarrow>
      init X = None \<and> init Y = None \<and> self X \<noteq> self Y \<and>
      (\<forall>g options s. read X (handle X) g options s = g (handle Y) s) \<and>
      (\<forall>g options s. read Y (handle Y) g options s = g (handle X) s))"
proof (intro conjI)
  show "scenario_read rd wr s0 rt = Inl (Error ''createStore will be implemented in Day 2'')"
    unfolding scenario_read_def split_def Let_def by (rule createStore_stops)
  show "scenario_cycle_read s0 rt = Inl (Error ''createStore will be implemented in Day 2'')"
    unfolding scenario_cycle_read_def split_def Let_def by (rule createStore_stops)
  show "init (fst (atom (Function f) wr rt)) = None"
    and "read (fst (atom (Function f) wr rt)) = f"
    by (rule atom_function_fields)+
  show "case atom (Function self_reading) None rt of (X, rt') \<Rightarrow>
      (\<forall>g options s. read X (handle X) g options s = g (handle X) s)"
    by (simp add: split_def atom_function_fields self_reading_def)
next
  obtain X Y rt' where c: "cells_cycle rt = (X :: ('s, 'o) Atom, Y :: ('s, 'o) Atom, rt')"
    by (cases "cells_cycle rt :: ('s, 'o) Atom \<times> ('s, 'o) Atom \<times> runtime") auto
  define rt1 where
    "rt1 = snd (atom (Function (reading (next_derived rt)) :: ('s, 'o) first_arg) None rt)"
  from c have X: "X = fst (atom (Function (reading (next_derived rt))) None rt)"
    and Y: "Y = fst (atom (Function (reading (handle X))) None rt1)"
    by (auto simp: cells_cycle_def split_def Let_def prod_eq_iff rt1_def)
  have rt1: "rt1 = \<lparr>keyCount = increment (keyCount rt), nextObj = nextObj rt + 1\<rparr>"
    unfolding rt1_def by (rule atom_runtime)
  have hY: "handle Y = next_derived rt"
    by (simp add: Y handle_def next_derived_def atom_self atom_key atom_function_fields
        atom_debugLabel rt1)
  have rX: "read X this g options s = g (handle Y) s" for this g options s
    by (simp add: X atom_function_fields reading_def hY)
  have rY: "read Y this g options s = g (handle X) s" for this g options s
    by (simp add: Y atom_function_fields reading_def)
  have ids: "self X \<noteq> self Y"
    by (simp add: X Y atom_self rt1)
  have inits: "init X = None" "init Y = None"
    by (simp_all add: X Y atom_function_fields)
  from rX rY ids inits
  show "case cells_cycle rt :: ('s, 'o) Atom \<times> ('s, 'o) Atom \<times> runtime of (X, Y, rt') \<Rightarrow>
      init X = None \<and> init Y = None \<and> self X \<noteq> self Y \<and>
      (\<forall>g options s. read X (handle X) g options s = g (handle Y) s) \<and>
      (\<forall>g options s. read Y (handle Y) g options s = g (handle X) s)"
    by (simp add: c)
qed

theorem scenario_self_read_counterexample:
  "scenario_read (Function self_reading) None () initial_runtime =
     Inl (Error ''createStore will be implemented in Day 2'') \<and>
   scenario_cycle_read () initial_runtime =
     Inl (Error ''createStore will be implemented in Day 2'')"
  by (simp add: scenario_read_def scenario_cycle_read_def split_def then_do_def createStore_def)

section \<open>The debug label\<close>




section \<open>The store entry points\<close>

text \<open>
  C10. Every call of \<^verbatim>\<open>createStore\<close> and of \<^verbatim>\<open>getDefaultStore\<close> throws an Error and
  returns no store (\<^verbatim>\<open>useStore\<close>, the other function of the public API that would
  hand out a store, throws too); so whatever a script does with the store after the call,
  \<^verbatim>\<open>get\<close>, \<^verbatim>\<open>set\<close> and \<^verbatim>\<open>sub\<close> included, never runs.
\<close>

theorem createStore_always_throws:
  "createStore u = Inl (Error ''createStore will be implemented in Day 2'') \<and>
   getDefaultStore u = Inl (Error ''getDefaultStore will be implemented in Day 2'') \<and>
   useStore u = Inl (Error ''useStore will be implemented in Day 5'') \<and>
   (\<forall>st. createStore u \<noteq> Inr st) \<and>
   (\<forall>st. getDefaultStore u \<noteq> Inr st) \<and>
   (\<forall>st. useStore u \<noteq> Inr st) \<and>
   (\<forall>k. then_do (createStore u) k = Inl (Error ''createStore will be implemented in Day 2'')) \<and>
   (\<forall>k. then_do (getDefaultStore u) k =
      Inl (Error ''getDefaultStore will be implemented in Day 2''))"
  by (simp add: createStore_def getDefaultStore_def useStore_def then_do_def)

end
